theory Spec2Isabelle
  imports Complex_Main
begin

section \<open>Python values, their text and their numeric reading\<close>

text \<open>
  A DataFrame cell and a value of the entry dictionary is an integer, a float or a
  string. A float is carried as its \<open>repr\<close>, the decimal text that \<open>str\<close> returns for it
  and that reads back as the same float. Numbers are exact: a float is identified with
  the decimal it is written as, which is what \<open>repr\<close> does for a numeral of up to 15
  significant digits in the normal range of a 64-bit float; the binary rounding of longer
  numerals is outside this model. Blanks and digits are the ASCII ones.
\<close>

datatype pyval = PInt int | PFloat string | PStr string

datatype exn = APIError | GSpreadException | OverflowError | KeyError string | ValueError

datatype pynum = NegInf | Fin rat | PosInf

definition digit_char :: "nat \<Rightarrow> char" where
  "digit_char d = char_of (48 + d)"

fun str_nat :: "nat \<Rightarrow> string" where
  "str_nat n = (if n < 10 then [digit_char n] else str_nat (n div 10) @ [digit_char (n mod 10)])"

declare str_nat.simps [simp del]

definition str_int :: "int \<Rightarrow> string" where
  "str_int i = (if i < 0 then CHR ''-'' # str_nat (nat (- i)) else str_nat (nat i))"

text \<open>\<open>str(v)\<close>, as used by \<open>astype(str)\<close>, by \<open>str(entry_id)\<close> and for the text of a cell.\<close>

fun py_str :: "pyval \<Rightarrow> string" where
  "py_str (PInt i) = str_int i"
| "py_str (PFloat r) = r"
| "py_str (PStr s) = s"

definition is_digit :: "char \<Rightarrow> bool" where
  "is_digit c = (48 \<le> (of_char c :: nat) \<and> (of_char c :: nat) \<le> 57)"

definition digit_val :: "char \<Rightarrow> int" where
  "digit_val c = (of_char c :: int) - 48"

definition digits_val :: "string \<Rightarrow> int" where
  "digits_val s = foldl (\<lambda>a c. 10 * a + digit_val c) 0 s"

text \<open>The blanks that number parsing skips at both ends: space, tab, the line ends.\<close>

definition is_space :: "char \<Rightarrow> bool" where
  "is_space c = ((of_char c :: nat) = 32 \<or> (9 \<le> (of_char c :: nat) \<and> (of_char c :: nat) \<le> 13))"

definition strip :: "string \<Rightarrow> string" where
  "strip s = rev (dropWhile is_space (rev (dropWhile is_space s)))"

fun split_sign :: "string \<Rightarrow> bool \<times> string" where
  "split_sign [] = (False, [])"
| "split_sign (c # r) =
     (if c = CHR ''-'' then (True, r) else if c = CHR ''+'' then (False, r) else (False, c # r))"

definition lower_char :: "char \<Rightarrow> char" where
  "lower_char c =
     (if 65 \<le> (of_char c :: nat) \<and> (of_char c :: nat) \<le> 90
      then char_of ((of_char c :: nat) + 32) else c)"

text \<open>\<open>s.lower()\<close> on the ASCII letters; other bytes are left as they are.\<close>

definition lower :: "string \<Rightarrow> string" where
  "lower s = map lower_char s"

text \<open>\<open>int(s)\<close> on a string: blanks, an optional sign, digits; \<open>None\<close> for \<open>ValueError\<close>.\<close>

definition int_literal :: "string \<Rightarrow> int option" where
  "int_literal s =
     (let (neg, body) = split_sign (strip s)
      in if body \<noteq> [] \<and> list_all is_digit body
         then Some (if neg then - digits_val body else digits_val body)
         else None)"

text \<open>
  An unsigned decimal numeral: digits, optionally a point and more digits, with at least
  one digit in all, optionally an exponent (\<open>12\<close>, \<open>2.5\<close>, \<open>.5\<close>, \<open>3.\<close>, \<open>1e3\<close>, \<open>1.5E-7\<close>). The
  parts are the digits before the point, the digits after it and the exponent.
\<close>

definition split_decimal :: "string \<Rightarrow> (string \<times> string \<times> int) option" where
  "split_decimal body =
     (let ip = takeWhile is_digit body;
          after_ip = dropWhile is_digit body;
          (fp, after_fp) =
            (case after_ip of
               [] \<Rightarrow> ([], [])
             | c # t \<Rightarrow> if c = CHR ''.'' then (takeWhile is_digit t, dropWhile is_digit t)
                        else ([], after_ip))
      in if ip = [] \<and> fp = [] then None
         else case after_fp of
                [] \<Rightarrow> Some (ip, fp, 0)
              | c # t \<Rightarrow>
                  if c = CHR ''e'' \<or> c = CHR ''E''
                  then (let (eneg, ed) = split_sign t
                        in if ed \<noteq> [] \<and> list_all is_digit ed
                           then Some (ip, fp,
                                  if eneg then - digits_val ed else digits_val ed)
                           else None)
                  else None)"

fun decimal_value :: "string \<times> string \<times> int \<Rightarrow> rat" where
  "decimal_value (ip, fp, e) =
     (let m = of_int (digits_val (ip @ fp)); x = e - int (length fp)
      in if 0 \<le> x then m * 10 ^ nat x else m / 10 ^ nat (- x))"

subsection \<open>The \<open>repr\<close> of a float\<close>

definition is_zero :: "char \<Rightarrow> bool" where
  "is_zero c = (c = CHR ''0'')"

text \<open>Positional form, with at least one digit on each side of the point.\<close>

definition fixed_notation :: "string \<Rightarrow> int \<Rightarrow> string" where
  "fixed_notation ds decpt =
     (if decpt \<le> 0 then ''0.'' @ replicate (nat (- decpt)) (CHR ''0'') @ ds
      else if length ds \<le> nat decpt
           then ds @ replicate (nat decpt - length ds) (CHR ''0'') @ ''.0''
           else take (nat decpt) ds @ ''.'' @ drop (nat decpt) ds)"

text \<open>Exponent form: one digit before the point, an exponent of at least two digits.\<close>

definition sci_notation :: "string \<Rightarrow> int \<Rightarrow> string" where
  "sci_notation ds x =
     (case ds of
        [] \<Rightarrow> []
      | d # rest \<Rightarrow>
          d # (if rest = [] then [] else CHR ''.'' # rest) @ ''e'' @
          (if x < 0 then ''-'' else ''+'') @
          (if nat \<bar>x\<bar> < 10 then CHR ''0'' # str_nat (nat \<bar>x\<bar>) else str_nat (nat \<bar>x\<bar>)))"

text \<open>
  The \<open>repr\<close> of the float written as a signed decimal numeral. The significant digits
  \<open>ds\<close> are those of the numeral without its leading and trailing zeros and the value is
  \<open>0.ds\<close> times ten to the power \<open>decpt\<close>; the exponent form is used when \<open>decpt\<close> is above 16
  or not above -4. A value beyond the largest float is \<open>inf\<close>, one below the smallest is
  zero; the two bounds are compared only where \<open>decpt\<close> leaves the matter open.
\<close>

definition float_repr :: "bool \<Rightarrow> string \<times> string \<times> int \<Rightarrow> string" where
  "float_repr neg d =
     (case d of (ip, fp, e) \<Rightarrow>
        (let sign = (if neg then ''-'' else []);
             ds = rev (dropWhile is_zero (rev (dropWhile is_zero (ip @ fp))));
             decpt = int (length ip) - int (length (takeWhile is_zero (ip @ fp))) + e;
             shown = sign @ (if 16 < decpt \<or> decpt \<le> - 4 then sci_notation ds (decpt - 1)
                             else fixed_notation ds decpt)
         in if ds = [] then sign @ ''0.0''
            else if 308 < decpt
                 then (if 2 ^ 1024 - 2 ^ 970 \<le> decimal_value d then sign @ ''inf'' else shown)
            else if decpt < - 306
                 then (if decimal_value d \<le> 1 / 2 ^ 1075 then sign @ ''0.0'' else shown)
            else shown))"

text \<open>\<open>repr(float(s))\<close> on a string; \<open>None\<close> when \<open>float(s)\<close> raises \<open>ValueError\<close>.\<close>

definition float_literal :: "string \<Rightarrow> string option" where
  "float_literal s =
     (let (neg, body) = split_sign (strip s)
      in if lower body = ''nan'' then Some ''nan''
         else if lower body = ''inf'' \<or> lower body = ''infinity''
              then Some (if neg then ''-inf'' else ''inf'')
              else map_option (float_repr neg) (split_decimal body))"

text \<open>\<open>repr(float(i))\<close> on an integer.\<close>

definition float_of_int :: "int \<Rightarrow> string" where
  "float_of_int i = float_repr (i < 0) (str_nat (nat \<bar>i\<bar>), [], 0)"

subsection \<open>\<open>pd.to_numeric\<close> and \<open>max\<close>\<close>

text \<open>
  What \<open>pd.to_numeric(..., errors='coerce')\<close> makes of one string: a signed decimal
  numeral, blanks around it allowed, or a signed infinity is a number; every other text
  is coerced to NaN (\<open>None\<close>), the text \<open>nan\<close> included. The number is the exact value of
  the numeral.
\<close>

definition to_numeric_str :: "string \<Rightarrow> pynum option" where
  "to_numeric_str s =
     (let (neg, body) = split_sign s
      in if lower body = ''inf'' \<or> lower body = ''infinity''
         then Some (if neg then NegInf else PosInf)
         else (let (neg, body) = split_sign (strip s)
               in map_option (\<lambda>d. Fin (if neg then - decimal_value d else decimal_value d))
                    (split_decimal body)))"

fun to_numeric :: "pyval \<Rightarrow> pynum option" where
  "to_numeric (PInt i) = Some (Fin (of_int i))"
| "to_numeric (PFloat r) = to_numeric_str r"
| "to_numeric (PStr s) = to_numeric_str s"

fun num_max :: "pynum \<Rightarrow> pynum \<Rightarrow> pynum" where
  "num_max PosInf _ = PosInf"
| "num_max _ PosInf = PosInf"
| "num_max NegInf b = b"
| "num_max a NegInf = a"
| "num_max (Fin a) (Fin b) = Fin (max a b)"

text \<open>\<open>Series.max()\<close>: NaN entries are skipped; the maximum of nothing is NaN.\<close>

fun series_max :: "pynum option list \<Rightarrow> pynum option" where
  "series_max [] = None"
| "series_max (None # xs) = series_max xs"
| "series_max (Some a # xs) =
     (case series_max xs of None \<Rightarrow> Some a | Some b \<Rightarrow> Some (num_max a b))"

text \<open>\<open>int(x)\<close> on a float: truncation toward zero; an infinity raises \<open>OverflowError\<close>.\<close>

definition trunc :: "rat \<Rightarrow> int" where
  "trunc q = (if 0 \<le> q then \<lfloor>q\<rfloor> else \<lceil>q\<rceil>)"

fun py_int :: "pynum \<Rightarrow> exn + int" where
  "py_int (Fin q) = Inr (trunc q)"
| "py_int _ = Inl OverflowError"

section \<open>DataFrames\<close>

text \<open>
  A DataFrame is its column labels and its rows, each row holding one cell per column in
  the order of the labels.
\<close>

record DataFrame =
  columns :: "string list"
  rows :: "pyval list list"

definition HEADERS :: "string list" where
  "HEADERS = [''ID'', ''Timestamp'', ''Cashier'', ''Bank'', ''Credit'']"

definition df_empty :: "DataFrame \<Rightarrow> bool" where
  "df_empty df = (rows df = [] \<or> columns df = [])"

fun index_of :: "'a \<Rightarrow> 'a list \<Rightarrow> nat option" where
  "index_of x [] = None"
| "index_of x (y # ys) = (if x = y then Some 0 else map_option Suc (index_of x ys))"

definition cell :: "pyval list \<Rightarrow> nat \<Rightarrow> pyval" where
  "cell r i = (if i < length r then r ! i else PStr [])"

text \<open>\<open>df[name]\<close> for a label that is present; no cells when it is absent.\<close>

definition column :: "DataFrame \<Rightarrow> string \<Rightarrow> pyval list" where
  "column df name =
     (case index_of name (columns df) of
        None \<Rightarrow> []
      | Some i \<Rightarrow> map (\<lambda>r. cell r i) (rows df))"

text \<open>
  The type pandas gives a column built from Python values: a column with a string in it
  keeps its values as they are; a column of numbers with a float in it becomes a float
  column, its integers turned into floats; a column of integers stays one.
\<close>

datatype dtype = Int64 | Float64 | Object

fun is_str :: "pyval \<Rightarrow> bool" where
  "is_str (PStr s) = True"
| "is_str _ = False"

fun is_float :: "pyval \<Rightarrow> bool" where
  "is_float (PFloat r) = True"
| "is_float _ = False"

definition col_dtype :: "pyval list \<Rightarrow> dtype" where
  "col_dtype xs =
     (if list_ex is_str xs then Object else if list_ex is_float xs then Float64 else Int64)"

fun as_dtype :: "dtype \<Rightarrow> pyval \<Rightarrow> pyval" where
  "as_dtype Float64 (PInt i) = PFloat (float_of_int i)"
| "as_dtype d v = v"

definition dtypes :: "nat \<Rightarrow> pyval list list \<Rightarrow> dtype list" where
  "dtypes n raw = map (\<lambda>j. col_dtype (map (\<lambda>row. cell row j) raw)) [0..<n]"

definition convert :: "dtype list \<Rightarrow> pyval list \<Rightarrow> pyval list" where
  "convert ds row = map (\<lambda>(d, v). as_dtype d v) (zip ds row)"

text \<open>The rows of a frame of \<open>n\<close> columns, every column brought to its type.\<close>

definition unify :: "nat \<Rightarrow> pyval list list \<Rightarrow> pyval list list" where
  "unify n raw = map (convert (dtypes n raw)) raw"

section \<open>The ledger service\<close>

subsection \<open>\<open>get_next_id\<close>\<close>

definition get_next_id :: "DataFrame \<Rightarrow> exn + int" where
  "get_next_id df =
     (if df_empty df \<or> ''ID'' \<notin> set (columns df) then Inr 1
      else case series_max (map to_numeric (column df ''ID'')) of
             None \<Rightarrow> Inr 1
           | Some max_id \<Rightarrow> (case py_int max_id of Inl e \<Rightarrow> Inl e | Inr m \<Rightarrow> Inr (m + 1)))"

subsection \<open>The worksheet behind the service\<close>

text \<open>
  The worksheet is the grid of cell texts that the spreadsheet API returns, header row
  first, together with the connectivity of the API: while \<open>online\<close> is false every call
  raises \<open>APIError\<close>. An appended value is kept as the text \<open>str\<close> gives for it; the
  re-parsing and formatting of appended values by the spreadsheet (\<open>USER_ENTERED\<close>) is
  not modelled.
\<close>

record Worksheet =
  online :: bool
  grid :: "string list list"

type_synonym dict = "(string \<times> pyval) list"

definition width :: "string list list \<Rightarrow> nat" where
  "width g = foldr (\<lambda>r m. max (length r) m) g 0"

definition pad :: "nat \<Rightarrow> string list \<Rightarrow> string list" where
  "pad n r = r @ replicate (n - length r) []"

text \<open>Rows of the API answer are ragged; gspread fills them with blanks to one width.\<close>

definition fill_gaps :: "string list list \<Rightarrow> string list list" where
  "fill_gaps g = map (pad (width g)) g"

text \<open>
  gspread's \<open>numericise\<close>: a cell text that \<open>int\<close> reads becomes that integer, one that
  \<open>float\<close> reads becomes that float, any other text and any text with an underscore stays
  a string.
\<close>

definition numericise :: "string \<Rightarrow> pyval" where
  "numericise v =
     (if CHR ''_'' \<in> set v then PStr v
      else case int_literal v of
             Some i \<Rightarrow> PInt i
           | None \<Rightarrow> (case float_literal v of Some r \<Rightarrow> PFloat r | None \<Rightarrow> PStr v))"

text \<open>
  \<open>ws.get_all_records()\<close>: the first row gives the keys, which must be unique, and every
  further row, its cells numericised, becomes one dictionary.
\<close>

definition get_all_records :: "Worksheet \<Rightarrow> exn + dict list" where
  "get_all_records ws =
     (if \<not> online ws then Inl APIError
      else case fill_gaps (grid ws) of
             [] \<Rightarrow> Inr []
           | keys # vals \<Rightarrow>
               if \<not> distinct keys then Inl GSpreadException
               else Inr (map (\<lambda>r. zip keys (map numericise r)) vals))"

text \<open>\<open>ws.append_row(values)\<close>: one more row below the table.\<close>

definition append_row :: "Worksheet \<Rightarrow> pyval list \<Rightarrow> exn + Worksheet" where
  "append_row ws data_row =
     (if online ws then Inr (ws\<lparr>grid := grid ws @ [map py_str data_row]\<rparr>) else Inl APIError)"

definition first_text :: "string list \<Rightarrow> string" where
  "first_text r = (case r of [] \<Rightarrow> [] | c # _ \<Rightarrow> c)"

fun find_row :: "string \<Rightarrow> string list list \<Rightarrow> nat option" where
  "find_row query [] = None"
| "find_row query (r # rs) =
     (if first_text r = query then Some 1 else map_option Suc (find_row query rs))"

text \<open>
  \<open>ws.find(query, in_column=1)\<close>: the first cell of column 1, the header row included,
  whose text equals the query; the answer is its row number, counted from 1.
\<close>

definition ws_find :: "Worksheet \<Rightarrow> string \<Rightarrow> exn + nat option" where
  "ws_find ws query = (if online ws then Inr (find_row query (grid ws)) else Inl APIError)"

text \<open>\<open>ws.delete_rows(n)\<close>: row \<open>n\<close>, counted from 1, is taken out of the grid.\<close>

definition delete_rows :: "Worksheet \<Rightarrow> nat \<Rightarrow> exn + Worksheet" where
  "delete_rows ws n =
     (if online ws then Inr (ws\<lparr>grid := take (n - 1) (grid ws) @ drop n (grid ws)\<rparr>)
      else Inl APIError)"

subsection \<open>Messages shown to the user\<close>

text \<open>
  Each call of \<open>st.error\<close>, \<open>st.success\<close> and \<open>st.warning\<close> is recorded with the fixed part
  of its text and the values that are formatted into it.
\<close>

datatype st_call =
    St_error string exn
  | St_success string "pyval list"
  | St_warning string

subsection \<open>\<open>load_data_from_gsheet\<close>\<close>

text \<open>
  \<open>pd.DataFrame(records)\<close>: the keys of the dictionaries label the columns and every
  column gets its type.
\<close>

definition DataFrame_of :: "dict list \<Rightarrow> DataFrame" where
  "DataFrame_of records =
     (case records of
        [] \<Rightarrow> \<lparr>columns = [], rows = []\<rparr>
      | r # _ \<Rightarrow> \<lparr>columns = map fst r, rows = unify (length r) (map (map snd) records)\<rparr>)"

text \<open>\<open>df[name] = df[name].astype(str)\<close>\<close>

definition astype_str :: "DataFrame \<Rightarrow> string \<Rightarrow> DataFrame" where
  "astype_str df name =
     (case index_of name (columns df) of
        None \<Rightarrow> df
      | Some i \<Rightarrow> df\<lparr>rows := map (\<lambda>r. r[i := PStr (py_str (cell r i))]) (rows df)\<rparr>)"

definition load_data_from_gsheet :: "Worksheet \<Rightarrow> DataFrame \<times> st_call list" where
  "load_data_from_gsheet ws =
     (case get_all_records ws of
        Inl e \<Rightarrow>
          (\<lparr>columns = HEADERS, rows = []\<rparr>,
           [St_error ''Failed to load data from Google Sheet: '' e])
      | Inr records \<Rightarrow>
          (let df = DataFrame_of records
           in if df_empty df then (\<lparr>columns = HEADERS, rows = []\<rparr>, [])
              else if ''ID'' \<in> set (columns df) then (astype_str df ''ID'', [])
              else (df, [])))"

subsection \<open>\<open>save_entry\<close>\<close>

text \<open>
  The entry is a dictionary in insertion order. \<open>entry[k] = v\<close> replaces the value of a
  key that is present and adds the key at the end otherwise; the caller's dictionary is
  the one changed, so the model returns it.
\<close>

fun dict_set :: "dict \<Rightarrow> string \<Rightarrow> pyval \<Rightarrow> dict" where
  "dict_set [] k v = [(k, v)]"
| "dict_set ((k', v') # d) k v = (if k' = k then (k, v) # d else (k', v') # dict_set d k v)"

definition dict_get :: "dict \<Rightarrow> string \<Rightarrow> pyval \<Rightarrow> pyval" where
  "dict_get d k dflt = (case map_of d k of None \<Rightarrow> dflt | Some v \<Rightarrow> v)"

definition dict_item :: "dict \<Rightarrow> string \<Rightarrow> exn + pyval" where
  "dict_item d k = (case map_of d k of None \<Rightarrow> Inl (KeyError k) | Some v \<Rightarrow> Inr v)"

text \<open>
  The text of the success message: \<open>entry['Bank']\<close> and \<open>entry['Credit']\<close> must be present,
  and the format \<open>:,.2f\<close> accepts a number only.
\<close>

definition saved_message :: "int \<Rightarrow> dict \<Rightarrow> exn + st_call" where
  "saved_message entry_id entry =
     (case dict_item entry ''Bank'' of
        Inl e \<Rightarrow> Inl e
      | Inr bank \<Rightarrow>
          (case dict_item entry ''Credit'' of
             Inl e \<Rightarrow> Inl e
           | Inr (PStr s) \<Rightarrow> Inl ValueError
           | Inr credit \<Rightarrow> Inr (St_success ''Saved: ID '' [PInt entry_id, bank, credit])))"

text \<open>The result is the returned flag, the worksheet, the caller's entry and the messages.\<close>

definition save_entry ::
    "Worksheet \<Rightarrow> DataFrame \<Rightarrow> dict \<Rightarrow> bool \<times> Worksheet \<times> dict \<times> st_call list" where
  "save_entry ws df entry =
     (case get_next_id df of
        Inl e \<Rightarrow> (False, ws, entry, [St_error ''Failed to save entry: '' e])
      | Inr entry_id \<Rightarrow>
          (let entry' = dict_set entry ''ID'' (PInt entry_id);
               data_row = map (\<lambda>h. dict_get entry' h (PStr [])) HEADERS
           in case append_row ws data_row of
                Inl e \<Rightarrow> (False, ws, entry', [St_error ''Failed to save entry: '' e])
              | Inr ws' \<Rightarrow>
                  (case saved_message entry_id entry' of
                     Inl e \<Rightarrow> (False, ws', entry', [St_error ''Failed to save entry: '' e])
                   | Inr m \<Rightarrow> (True, ws', entry', [m]))))"

subsection \<open>\<open>remove_entry_from_gsheet\<close>\<close>

datatype delete_message =
    Deleted_successfully string
  | Could_not_find string
  | Error_while_deleting exn

definition remove_entry_from_gsheet ::
    "Worksheet \<Rightarrow> pyval \<Rightarrow> (bool \<times> delete_message) \<times> Worksheet" where
  "remove_entry_from_gsheet ws entry_id =
     (case ws_find ws (py_str entry_id) of
        Inl e \<Rightarrow> ((False, Error_while_deleting e), ws)
      | Inr None \<Rightarrow> ((False, Could_not_find (py_str entry_id)), ws)
      | Inr (Some row) \<Rightarrow>
          (case delete_rows ws row of
             Inl e \<Rightarrow> ((False, Error_while_deleting e), ws)
           | Inr ws' \<Rightarrow> ((True, Deleted_successfully (py_str entry_id)), ws')))"


section \<open>The entries log of the main page\<close>

subsection \<open>Search\<close>

text \<open>\<open>sep.join(parts)\<close>\<close>

fun join :: "string \<Rightarrow> string list \<Rightarrow> string" where
  "join sep [] = []"
| "join sep [x] = x"
| "join sep (x # y # ys) = x @ sep @ join sep (y # ys)"

fun starts_with :: "string \<Rightarrow> string \<Rightarrow> bool" where
  "starts_with s [] = True"
| "starts_with [] (a # q) = False"
| "starts_with (c # s) (a # q) = (c = a \<and> starts_with s q)"

text \<open>\<open>q in s\<close> on strings: \<open>q\<close> occurs in \<open>s\<close> as a contiguous piece.\<close>

fun py_in :: "string \<Rightarrow> string \<Rightarrow> bool" where
  "py_in q [] = (q = [])"
| "py_in q (c # s) = (starts_with (c # s) q \<or> py_in q s)"

text \<open>\<open>' '.join(row.astype(str)).lower()\<close>\<close>

definition row_text :: "pyval list \<Rightarrow> string" where
  "row_text row = lower (join '' '' (map py_str row))"

definition search_entries :: "string \<Rightarrow> DataFrame \<Rightarrow> DataFrame" where
  "search_entries search_query df =
     (if search_query \<noteq> []
      then df\<lparr>rows := filter (\<lambda>row. py_in (lower search_query) (row_text row)) (rows df)\<rparr>
      else df)"

subsection \<open>Display order\<close>

text \<open>
  The order of Python strings: by the first position where they differ, a proper prefix
  first. The ID column of a loaded snapshot holds strings, and this is the order
  \<open>sort_values\<close> compares them in.
\<close>

fun str_less :: "string \<Rightarrow> string \<Rightarrow> bool" where
  "str_less [] [] = False"
| "str_less [] (b # t) = True"
| "str_less (a # s) [] = False"
| "str_less (a # s) (b # t) =
     ((of_char a :: nat) < of_char b \<or> (a = b \<and> str_less s t))"

text \<open>
  Descending insertion below the column \<open>i\<close>; rows with equal keys keep their order (for
  such rows the default algorithm of pandas promises no order).
\<close>

fun insert_desc :: "nat \<Rightarrow> pyval list \<Rightarrow> pyval list list \<Rightarrow> pyval list list" where
  "insert_desc i r [] = [r]"
| "insert_desc i r (x # xs) =
     (if str_less (py_str (cell r i)) (py_str (cell x i)) then x # insert_desc i r xs
      else r # x # xs)"

text \<open>\<open>df.sort_values(by=name, ascending=False).reset_index(drop=True)\<close>\<close>

definition sort_values_desc :: "DataFrame \<Rightarrow> string \<Rightarrow> exn + DataFrame" where
  "sort_values_desc df name =
     (case index_of name (columns df) of
        None \<Rightarrow> Inl (KeyError name)
      | Some i \<Rightarrow> Inr (df\<lparr>rows := foldr (insert_desc i) (rows df) []\<rparr>))"

definition display_df :: "string \<Rightarrow> DataFrame \<Rightarrow> exn + DataFrame" where
  "display_df search_query df = sort_values_desc (search_entries search_query df) ''ID''"

section \<open>The entry form of the main page\<close>

text \<open>
  The session holds the selected cashier and bank; the form holds the amount typed into
  the number input (a float, or nothing). The form is declared with
  \<open>clear_on_submit=True\<close>: pressing the submit button resets its widgets to their
  defaults, here the amount to nothing, whatever the handler does.
\<close>

record Session =
  selected_cashier :: string
  selected_bank :: "string option"
  credit_input :: "string option"

definition submit_entry ::
    "string \<Rightarrow> Session \<Rightarrow> Worksheet \<Rightarrow> Session \<times> Worksheet \<times> st_call list" where
  "submit_entry now ss ws =
     (let cleared = ss\<lparr>credit_input := None\<rparr>
      in case selected_bank ss of
           None \<Rightarrow> (cleared, ws, [St_warning ''Please select a bank.''])
         | Some bank \<Rightarrow>
             if bank = [] then (cleared, ws, [St_warning ''Please select a bank.''])
             else case credit_input ss of
                    None \<Rightarrow> (cleared, ws, [St_warning ''Please enter a credit amount.''])
                  | Some credit \<Rightarrow>
                      (let entry_data =
                             [(''Timestamp'', PStr now), (''Bank'', PStr bank),
                              (''Credit'', PFloat credit),
                              (''Cashier'', PStr (selected_cashier ss))];
                           (df_for_id, shown) = load_data_from_gsheet ws;
                           (saved, ws', entry', shown') = save_entry ws df_for_id entry_data
                       in (cleared, ws', shown @ shown')))"

section \<open>Notions used to state the properties\<close>

text \<open>The finite numeric ids of a snapshot, in row order.\<close>

definition fins :: "pynum option list \<Rightarrow> rat list" where
  "fins xs = concat (map (\<lambda>x. case x of Some (Fin q) \<Rightarrow> [q] | _ \<Rightarrow> []) xs)"

definition finite_ids :: "DataFrame \<Rightarrow> rat list" where
  "finite_ids df = fins (map to_numeric (column df ''ID''))"

text \<open>
  A cell that a 64-bit float holds without loss as far as truncation sees: it does not
  read as a number at all, or it reads as a finite number below \<open>10^15\<close> in magnitude that
  is written with at most 15 digits.
\<close>

definition within_float_precision :: "pyval \<Rightarrow> bool" where
  "within_float_precision v =
     (case to_numeric v of
        None \<Rightarrow> True
      | Some NegInf \<Rightarrow> False
      | Some PosInf \<Rightarrow> False
      | Some (Fin q) \<Rightarrow> length (filter is_digit (py_str v)) \<le> 15 \<and> \<bar>q\<bar> < 10 ^ 15)"

definition ids_within_float_precision :: "DataFrame \<Rightarrow> bool" where
  "ids_within_float_precision df = list_all within_float_precision (column df ''ID'')"


text \<open>The same value, an integer possibly shown as the float it equals.\<close>

fun same_value :: "pyval \<Rightarrow> pyval \<Rightarrow> bool" where
  "same_value (PInt i) (PFloat r) = (r = float_of_int i)"
| "same_value (PFloat r) (PInt i) = (r = float_of_int i)"
| "same_value a b = (a = b)"

section \<open>Example ledgers\<close>

text \<open>The ledger of the specification's scenario after the append: entries 1, 3 and 4.\<close>

definition ledger :: Worksheet where
  "ledger = \<lparr>online = True,
      grid = [HEADERS,
              [''1'', ''2024-05-01 09:00:00'', ''Misrak'', ''Abay'', ''100.0''],
              [''3'', ''2024-05-01 09:30:00'', ''Emush'', ''Nib'', ''50.0''],
              [''4'', ''2024-05-01 10:00:00'', ''Misrak'', ''Abay'', ''250.5'']]\<rparr>"

definition ledger_offline :: Worksheet where
  "ledger_offline = ledger\<lparr>online := False\<rparr>"


text \<open>Two rows carry the id 3, as two sessions appending at once can leave them.\<close>

definition ledger_duplicate :: Worksheet where
  "ledger_duplicate = \<lparr>online = True,
      grid = [HEADERS,
              [''3'', ''2024-05-01 09:30:00'', ''Emush'', ''Nib'', ''50.0''],
              [''3'', ''2024-05-01 09:30:01'', ''Tigist'', ''CBE'', ''20.0'']]\<rparr>"

text \<open>An id cell formatted as the text \<open>007\<close>.\<close>

definition ledger_text_id :: Worksheet where
  "ledger_text_id = \<lparr>online = True,
      grid = [HEADERS,
              [''007'', ''2024-05-01 09:00:00'', ''Misrak'', ''Abay'', ''100.0''],
              [''8'', ''2024-05-01 09:30:00'', ''Emush'', ''Nib'', ''50.0'']]\<rparr>"

text \<open>A stray id 2.5 beside the id 1, and whole credits shown without a point.\<close>

definition ledger_float_id :: Worksheet where
  "ledger_float_id = \<lparr>online = True,
      grid = [HEADERS,
              [''1'', ''2024-05-01 09:00:00'', ''Misrak'', ''Abay'', ''100''],
              [''2.5'', ''2024-05-01 09:30:00'', ''Emush'', ''Nib'', ''50'']]\<rparr>"

definition ledger_nine_ten :: Worksheet where
  "ledger_nine_ten = \<lparr>online = True,
      grid = [HEADERS,
              [''9'', ''2024-05-01 09:00:00'', ''Misrak'', ''Abay'', ''100.0''],
              [''10'', ''2024-05-01 09:30:00'', ''Emush'', ''Nib'', ''50.0'']]\<rparr>"

definition tigist_entry :: dict where
  "tigist_entry =
     [(''Timestamp'', PStr ''2024-05-02 08:00:00''), (''Bank'', PStr ''CBE''),
      (''Credit'', PFloat ''75.25''), (''Cashier'', PStr ''Tigist'')]"

definition tigist_session :: Session where
  "tigist_session =
     \<lparr>selected_cashier = ''Tigist'', selected_bank = Some ''CBE'',
      credit_input = Some ''75.25''\<rparr>"

definition two_banks :: DataFrame where
  "two_banks = \<lparr>columns = HEADERS,
      rows = [[PStr ''1'', PStr ''2024-05-01 09:00:00'', PStr ''Misrak'', PStr ''Abay'',
               PFloat ''100.0''],
              [PStr ''2'', PStr ''2024-05-01 09:30:00'', PStr ''Emush'', PStr ''CBE'',
               PFloat ''50.0'']]\<rparr>"

text \<open>A snapshot with a stray id cell that reads as the number 2.5.\<close>

definition fraction_ids :: DataFrame where
  "fraction_ids = \<lparr>columns = HEADERS,
      rows = [[PStr ''1'', PStr ''2024-05-01 09:00:00'', PStr ''Misrak'', PStr ''Abay'',
               PFloat ''100.0''],
              [PStr ''2.5'', PStr ''2024-05-01 09:30:00'', PStr ''Emush'', PStr ''Nib'',
               PFloat ''50.0'']]\<rparr>"

text \<open>Ids written with an exponent and with blanks around them, beside a void row.\<close>

definition spelled_ids :: DataFrame where
  "spelled_ids = \<lparr>columns = HEADERS,
      rows = [[PStr ''1e1'', PStr ''2024-05-01 09:00:00'', PStr ''Misrak'', PStr ''Abay'',
               PFloat ''100.0''],
              [PStr ''void'', PStr [], PStr [], PStr [], PStr []],
              [PStr '' 3 '', PStr ''2024-05-01 09:30:00'', PStr ''Emush'', PStr ''Nib'',
               PFloat ''50.0'']]\<rparr>"

section \<open>Next id\<close>

lemma series_max_fins:
  "list_all (\<lambda>x. x \<noteq> Some PosInf \<and> x \<noteq> Some NegInf) xs \<Longrightarrow>
   series_max xs = (if fins xs = [] then None else Some (Fin (Max (set (fins xs)))))"
proof (induction xs rule: series_max.induct)
  case 1
  then show ?case by (simp add: fins_def)
next
  case (2 xs)
  then show ?case by (simp add: fins_def)
next
  case (3 a xs)
  then obtain q where a: "a = Fin q" by (cases a) auto
  from 3 have ih:
    "series_max xs = (if fins xs = [] then None else Some (Fin (Max (set (fins xs)))))"
    by simp
  have f: "fins (Some a # xs) = q # fins xs" by (simp add: fins_def a)
  show ?case
  proof (cases "fins xs = []")
    case True
    then show ?thesis using ih f a by simp
  next
    case False
    then show ?thesis using ih f a by (simp add: max.commute)
  qed
qed

lemma trunc_of_int: "trunc (of_int k) = k"
  by (simp add: trunc_def)

lemma index_of_None: "index_of x ys = None \<longleftrightarrow> x \<notin> set ys"
  by (induction ys) auto

lemma column_absent: "name \<notin> set (columns df) \<Longrightarrow> column df name = []"
  by (simp add: column_def index_of_None [THEN iffD2])

lemma column_no_rows: "rows df = [] \<Longrightarrow> column df name = []"
  by (simp add: column_def split: option.splits)

lemma within_float_precision_finite:
  "within_float_precision v \<Longrightarrow> to_numeric v \<noteq> Some PosInf \<and> to_numeric v \<noteq> Some NegInf"
  by (auto simp: within_float_precision_def)

text \<open>
  C1 (as amended). For a snapshot in which every id cell that reads as a number is
  written with at most 15 digits, is below \<open>10^15\<close> in magnitude and is not an infinity:
  \<open>get_next_id\<close> returns 1 when the snapshot has no numeric id, which is the case when it
  is empty or has no ID column; otherwise it returns the maximum of the numeric ids,
  truncated toward zero, plus 1, which is the maximum plus 1 when the maximum is a whole
  number. Cells that do not read as a number are skipped.
\<close>

theorem get_next_id_trunc_max:
  assumes "ids_within_float_precision df"
  shows "get_next_id df =
           Inr (if finite_ids df = [] then 1 else trunc (Max (set (finite_ids df))) + 1)
       \<and> (df_empty df \<or> ''ID'' \<notin> set (columns df) \<longrightarrow> finite_ids df = [])
       \<and> (\<forall>k. finite_ids df \<noteq> [] \<and> Max (set (finite_ids df)) = of_int k
              \<longrightarrow> get_next_id df = Inr (k + 1))"
proof -
  have "list_all (\<lambda>x. x \<noteq> Some PosInf \<and> x \<noteq> Some NegInf) (map to_numeric (column df ''ID''))"
    using assms within_float_precision_finite
    by (auto simp: ids_within_float_precision_def list_all_iff)
  then have sm: "series_max (map to_numeric (column df ''ID'')) =
      (if finite_ids df = [] then None else Some (Fin (Max (set (finite_ids df)))))"
    unfolding finite_ids_def by (rule series_max_fins)
  have e: "df_empty df \<or> ''ID'' \<notin> set (columns df) \<longrightarrow> finite_ids df = []"
  proof
    assume "df_empty df \<or> ''ID'' \<notin> set (columns df)"
    then have "column df ''ID'' = []"
      unfolding df_empty_def using column_absent column_no_rows by fastforce
    then show "finite_ids df = []" by (simp add: finite_ids_def fins_def)
  qed
  have g: "get_next_id df =
           Inr (if finite_ids df = [] then 1 else trunc (Max (set (finite_ids df))) + 1)"
    using e sm by (auto simp: get_next_id_def)
  show ?thesis using e g by (auto simp: trunc_of_int)
qed

theorem get_next_id_trunc_max_witness:
  "ids_within_float_precision spelled_ids \<and> finite_ids spelled_ids = [10, 3]
   \<and> get_next_id spelled_ids = Inr 11"
proof -
  have h: "ids_within_float_precision spelled_ids"
    unfolding spelled_ids_def by code_simp
  have f: "finite_ids spelled_ids = [10, 3]"
    unfolding spelled_ids_def by code_simp
  from get_next_id_trunc_max [OF h] f h show ?thesis by (simp add: trunc_def)
qed

text \<open>
  With the ids \<open>1\<close> and \<open>2.5\<close> in the snapshot the maximum of the numeric ids is \<open>5/2\<close>;
  the next id is 3, not the maximum plus 1.
\<close>

theorem get_next_id_fraction_counterexample:
  "finite_ids fraction_ids = [1, 5 / 2]
   \<and> get_next_id fraction_ids = Inr 3
   \<and> (of_int 3 :: rat) \<noteq> Max (set [1, 5 / 2]) + 1"
proof -
  have "finite_ids fraction_ids = [1, 5 / 2]"
    unfolding fraction_ids_def by code_simp
  moreover have "get_next_id fraction_ids = Inr 3"
    unfolding fraction_ids_def by code_simp
  moreover have "(of_int 3 :: rat) \<noteq> Max (set [1, 5 / 2]) + 1"
    by simp
  ultimately show ?thesis by blast
qed

section \<open>Append, then list\<close>








lemma length_unify: "length (unify n raw) = length raw"
  by (simp add: unify_def)





lemma same_value_refl: "same_value v v"
  by (cases v) auto



























lemma map_of_dict_set: "map_of (dict_set d k v) k = Some v"
  by (induction d) auto

lemma map_of_dict_set_other: "k' \<noteq> k \<Longrightarrow> map_of (dict_set d k v) k' = map_of d k'"
  by (induction d) auto



text \<open>
  Beside the float id 2.5 the ID column is a float column: the prior ids are listed as
  \<open>1.0\<close> and \<open>2.5\<close>, before and after, and the new id 3 as \<open>3.0\<close>. The whole credits
  100 and 50 are integers before the append and floats beside the new credit 75.25.
\<close>

lemma save_entry_then_load_float_ids:
  "rows (fst (load_data_from_gsheet ledger_float_id)) =
     [[PStr ''1.0'', PStr ''2024-05-01 09:00:00'', PStr ''Misrak'', PStr ''Abay'', PInt 100],
      [PStr ''2.5'', PStr ''2024-05-01 09:30:00'', PStr ''Emush'', PStr ''Nib'', PInt 50]]
   \<and> fst (save_entry ledger_float_id (fst (load_data_from_gsheet ledger_float_id))
          tigist_entry)
   \<and> rows (fst (load_data_from_gsheet (fst (snd
        (save_entry ledger_float_id (fst (load_data_from_gsheet ledger_float_id))
           tigist_entry))))) =
     [[PStr ''1.0'', PStr ''2024-05-01 09:00:00'', PStr ''Misrak'', PStr ''Abay'',
       PFloat ''100.0''],
      [PStr ''2.5'', PStr ''2024-05-01 09:30:00'', PStr ''Emush'', PStr ''Nib'',
       PFloat ''50.0''],
      [PStr ''3.0'', PStr ''2024-05-02 08:00:00'', PStr ''Tigist'', PStr ''CBE'',
       PFloat ''75.25'']]"
  unfolding ledger_float_id_def tigist_entry_def by code_simp


section \<open>Delete by id\<close>

lemma find_row_None: "find_row q g = None \<longleftrightarrow> (\<forall>r \<in> set g. first_text r \<noteq> q)"
  by (induction g) auto

lemma find_row_Some:
  "find_row q g = Some n \<Longrightarrow>
   0 < n \<and> n \<le> length g \<and> first_text (g ! (n - 1)) = q
   \<and> (\<forall>j < n - 1. first_text (g ! j) \<noteq> q)"
proof (induction g arbitrary: n)
  case Nil
  then show ?case by simp
next
  case (Cons r g)
  show ?case
  proof (cases "first_text r = q")
    case True
    with Cons.prems show ?thesis by simp
  next
    case False
    with Cons.prems obtain m where m: "find_row q g = Some m" "n = Suc m" by auto
    from Cons.IH [OF m(1)] have ih: "0 < m" "m \<le> length g" "first_text (g ! (m - 1)) = q"
      "\<forall>j < m - 1. first_text (g ! j) \<noteq> q" by auto
    have "\<forall>j < n - 1. first_text ((r # g) ! j) \<noteq> q"
    proof (intro allI impI)
      fix j assume "j < n - 1"
      then show "first_text ((r # g) ! j) \<noteq> q"
        using False ih m(2) by (cases j) auto
    qed
    then show ?thesis using ih m(2) by (auto simp: nth_Cons')
  qed
qed

lemma remove_entry_absent:
  assumes "online ws" "find_row (py_str entry_id) (grid ws) = None"
  shows "remove_entry_from_gsheet ws entry_id = ((False, Could_not_find (py_str entry_id)), ws)"
  using assms by (simp add: remove_entry_from_gsheet_def ws_find_def)

lemma remove_entry_present:
  assumes "online ws" "find_row (py_str entry_id) (grid ws) = Some n"
  shows "remove_entry_from_gsheet ws entry_id =
           ((True, Deleted_successfully (py_str entry_id)),
            ws\<lparr>grid := take (n - 1) (grid ws) @ drop n (grid ws)\<rparr>)"
  using assms by (simp add: remove_entry_from_gsheet_def ws_find_def delete_rows_def)

lemma remove_entry_offline:
  assumes "\<not> online ws"
  shows "remove_entry_from_gsheet ws entry_id = ((False, Error_while_deleting APIError), ws)"
  using assms by (simp add: remove_entry_from_gsheet_def ws_find_def)

text \<open>
  C3. On a reachable worksheet, for every id: when some row's first cell has exactly the
  text of the id, \<open>remove_entry_from_gsheet\<close> returns true and the grid loses exactly
  one row, the first such row; when no row matches it returns false with the not-found
  message and the worksheet is unchanged.
\<close>

theorem remove_entry_first_match:
  assumes "online ws"
  shows "(if \<exists>r \<in> set (grid ws). first_text r = py_str entry_id
          then \<exists>i < length (grid ws).
                 first_text (grid ws ! i) = py_str entry_id
               \<and> (\<forall>j < i. first_text (grid ws ! j) \<noteq> py_str entry_id)
               \<and> remove_entry_from_gsheet ws entry_id =
                   ((True, Deleted_successfully (py_str entry_id)),
                    ws\<lparr>grid := take i (grid ws) @ drop (Suc i) (grid ws)\<rparr>)
          else remove_entry_from_gsheet ws entry_id =
                 ((False, Could_not_find (py_str entry_id)), ws))"
proof (cases "find_row (py_str entry_id) (grid ws)")
  case None
  have nm: "\<not> (\<exists>r \<in> set (grid ws). first_text r = py_str entry_id)"
    using None find_row_None [of "py_str entry_id" "grid ws"] by simp
  then show ?thesis using remove_entry_absent [OF assms None] by simp
next
  case (Some n)
  from find_row_Some [OF Some] have n: "0 < n" "n \<le> length (grid ws)"
    "first_text (grid ws ! (n - 1)) = py_str entry_id"
    "\<forall>j < n - 1. first_text (grid ws ! j) \<noteq> py_str entry_id" by auto
  have ex: "\<exists>r \<in> set (grid ws). first_text r = py_str entry_id"
    using Some find_row_None [of "py_str entry_id" "grid ws"] by auto
  have "remove_entry_from_gsheet ws entry_id =
          ((True, Deleted_successfully (py_str entry_id)),
           ws\<lparr>grid := take (n - 1) (grid ws) @ drop (Suc (n - 1)) (grid ws)\<rparr>)"
    using remove_entry_present [OF assms Some] n(1) by simp
  moreover have "n - 1 < length (grid ws)" using n by arith
  ultimately show ?thesis using ex n(3,4) by auto
qed

theorem remove_entry_first_match_witness:
  "online ledger \<and> (\<exists>r \<in> set (grid ledger). first_text r = ''3'')
   \<and> fst (fst (remove_entry_from_gsheet ledger (PStr ''3'')))
   \<and> length (grid (snd (remove_entry_from_gsheet ledger (PStr ''3'')))) = 3"
proof -
  have h: "online ledger" by (simp add: ledger_def)
  have ex: "\<exists>r \<in> set (grid ledger). first_text r = py_str (PStr ''3'')"
    unfolding ledger_def by code_simp
  have l: "length (grid ledger) = 4" by (simp add: ledger_def)
  from remove_entry_first_match [OF h, of "PStr ''3''"] ex
  obtain i where "i < length (grid ledger)"
    "remove_entry_from_gsheet ledger (PStr ''3'') =
       ((True, Deleted_successfully ''3''),
        ledger\<lparr>grid := take i (grid ledger) @ drop (Suc i) (grid ledger)\<rparr>)"
    by auto
  then show ?thesis using h ex l by auto
qed

text \<open>
  C4 (as amended). On a reachable worksheet where at most one row's first cell has the
  text of the id: after \<open>remove_entry_from_gsheet\<close> for that id, a second call for the
  same id returns false with the not-found message and leaves the worksheet as the
  first call left it.
\<close>

theorem remove_entry_twice_unique:
  assumes "online ws"
      and "length (filter (\<lambda>r. first_text r = py_str entry_id) (grid ws)) \<le> 1"
  shows "remove_entry_from_gsheet (snd (remove_entry_from_gsheet ws entry_id)) entry_id =
           ((False, Could_not_find (py_str entry_id)),
            snd (remove_entry_from_gsheet ws entry_id))"
proof (cases "find_row (py_str entry_id) (grid ws)")
  case None
  show ?thesis using remove_entry_absent [OF assms(1) None] by simp
next
  case (Some n)
  let ?q = "py_str entry_id"
  let ?g = "grid ws"
  let ?ws' = "ws\<lparr>grid := take (n - 1) ?g @ drop n ?g\<rparr>"
  from find_row_Some [OF Some] have n: "0 < n" "n \<le> length ?g"
    "first_text (?g ! (n - 1)) = ?q" by auto
  have split: "?g = take (n - 1) ?g @ (?g ! (n - 1)) # drop n ?g"
    using n id_take_nth_drop [of "n - 1" ?g] by simp
  have "length (filter (\<lambda>r. first_text r = ?q)
          (take (n - 1) ?g @ (?g ! (n - 1)) # drop n ?g)) \<le> 1"
    using assms(2) split by simp
  then have "filter (\<lambda>r. first_text r = ?q) (take (n - 1) ?g) = []"
    "filter (\<lambda>r. first_text r = ?q) (drop n ?g) = []"
    using n(3) by auto
  then have "\<forall>r \<in> set (take (n - 1) ?g @ drop n ?g). first_text r \<noteq> ?q"
    by (auto simp: filter_empty_conv)
  then have none: "find_row ?q (grid ?ws') = None"
    by (simp add: find_row_None)
  have on: "online ?ws'" using assms(1) by simp
  show ?thesis
    using remove_entry_present [OF assms(1) Some] remove_entry_absent [OF on none] by simp
qed

theorem remove_entry_twice_unique_witness:
  "online ledger
   \<and> length (filter (\<lambda>r. first_text r = py_str (PInt 3)) (grid ledger)) \<le> 1
   \<and> fst (fst (remove_entry_from_gsheet ledger (PInt 3)))
   \<and> remove_entry_from_gsheet (snd (remove_entry_from_gsheet ledger (PInt 3))) (PInt 3) =
       ((False, Could_not_find (py_str (PInt 3))),
        snd (remove_entry_from_gsheet ledger (PInt 3)))"
proof -
  have h: "online ledger" by (simp add: ledger_def)
  have u: "length (filter (\<lambda>r. first_text r = py_str (PInt 3)) (grid ledger)) \<le> 1"
    unfolding ledger_def by code_simp
  have f: "fst (fst (remove_entry_from_gsheet ledger (PInt 3)))"
    unfolding ledger_def by code_simp
  from remove_entry_twice_unique [OF h u] h u f show ?thesis by blast
qed

text \<open>
  With two rows of id 3 the first call removes one of them and the second call, instead
  of reporting not-found, returns true and removes the other.
\<close>

theorem remove_entry_twice_duplicate_counterexample:
  "remove_entry_from_gsheet (snd (remove_entry_from_gsheet ledger_duplicate (PInt 3))) (PInt 3) =
     ((True, Deleted_successfully ''3''), \<lparr>online = True, grid = [HEADERS]\<rparr>)
   \<and> grid (snd (remove_entry_from_gsheet ledger_duplicate (PInt 3))) \<noteq> [HEADERS]"
  unfolding ledger_duplicate_def by code_simp

section \<open>Ids are matched as text\<close>

lemma column_astype_str:
  "v \<in> set (column (astype_str df name) name) \<Longrightarrow> \<exists>s. v = PStr s"
  by (cases "index_of name (columns df)") (auto simp: column_def astype_str_def cell_def)

lemma load_cases:
  "load_data_from_gsheet ws = (df, shown) \<Longrightarrow>
   rows df = [] \<or> ''ID'' \<notin> set (columns df) \<or> (\<exists>df0. df = astype_str df0 ''ID'')"
  by (auto simp: load_data_from_gsheet_def Let_def split: sum.splits if_splits)

text \<open>
  C10. Every cell of the ID column of a loaded snapshot is a string;
  \<open>remove_entry_from_gsheet\<close> acts on its argument only through \<open>str\<close> of it; and it
  deletes exactly when the worksheet is reachable and the text of some row's first cell
  equals that string. The numeric reading of the cells plays no part.
\<close>

theorem id_match_is_text_equality:
  "(\<forall>v \<in> set (column (fst (load_data_from_gsheet ws)) ''ID''). \<exists>s. v = PStr s)
   \<and> remove_entry_from_gsheet ws entry_id =
       remove_entry_from_gsheet ws (PStr (py_str entry_id))
   \<and> (fst (fst (remove_entry_from_gsheet ws entry_id)) \<longleftrightarrow>
        online ws \<and> (\<exists>r \<in> set (grid ws). first_text r = py_str entry_id))"
proof (intro conjI)
  obtain df shown where l: "load_data_from_gsheet ws = (df, shown)"
    by (cases "load_data_from_gsheet ws")
  from load_cases [OF l]
  show "\<forall>v \<in> set (column (fst (load_data_from_gsheet ws)) ''ID''). \<exists>s. v = PStr s"
    unfolding l using column_no_rows column_absent column_astype_str by fastforce
next
  show "remove_entry_from_gsheet ws entry_id =
          remove_entry_from_gsheet ws (PStr (py_str entry_id))"
    by (simp add: remove_entry_from_gsheet_def split: sum.splits option.splits)
next
  show "fst (fst (remove_entry_from_gsheet ws entry_id)) \<longleftrightarrow>
        online ws \<and> (\<exists>r \<in> set (grid ws). first_text r = py_str entry_id)"
  proof (cases "online ws")
    case False
    then show ?thesis by (simp add: remove_entry_offline)
  next
    case True
    show ?thesis
    proof (cases "find_row (py_str entry_id) (grid ws)")
      case None
      then show ?thesis
        using True remove_entry_absent [OF True None]
          find_row_None [of "py_str entry_id" "grid ws"] by simp
    next
      case (Some n)
      then show ?thesis
        using True remove_entry_present [OF True Some]
          find_row_None [of "py_str entry_id" "grid ws"] by auto
    qed
  qed
qed

text \<open>
  The sheet's id cell reads \<open>007\<close> and loads as the id \<open>7\<close>, the same number and a
  different text: deleting the loaded id 7 does not find the row, deleting \<open>007\<close> does.
\<close>

theorem id_match_is_text_equality_witness:
  "column (fst (load_data_from_gsheet ledger_text_id)) ''ID'' = [PStr ''7'', PStr ''8'']
   \<and> to_numeric (PStr ''7'') = to_numeric (PStr ''007'')
   \<and> \<not> fst (fst (remove_entry_from_gsheet ledger_text_id (PStr ''7'')))
   \<and> fst (fst (remove_entry_from_gsheet ledger_text_id (PStr ''007'')))"
proof -
  have c: "column (fst (load_data_from_gsheet ledger_text_id)) ''ID'' =
             [PStr ''7'', PStr ''8'']"
    unfolding ledger_text_id_def by code_simp
  have n: "to_numeric (PStr ''7'') = to_numeric (PStr ''007'')" by code_simp
  have a: "\<not> (\<exists>r \<in> set (grid ledger_text_id). first_text r = py_str (PStr ''7''))"
    unfolding ledger_text_id_def by code_simp
  have b: "\<exists>r \<in> set (grid ledger_text_id). first_text r = py_str (PStr ''007'')"
    unfolding ledger_text_id_def by code_simp
  have o: "online ledger_text_id" by (simp add: ledger_text_id_def)
  have "\<not> fst (fst (remove_entry_from_gsheet ledger_text_id (PStr ''7'')))"
    using id_match_is_text_equality
      [of ledger_text_id "PStr ''7''", THEN conjunct2, THEN conjunct2] a by blast
  moreover have "fst (fst (remove_entry_from_gsheet ledger_text_id (PStr ''007'')))"
    using id_match_is_text_equality
      [of ledger_text_id "PStr ''007''", THEN conjunct2, THEN conjunct2] b o
    by blast
  ultimately show ?thesis using c n by simp
qed

section \<open>Failures of the store\<close>

text \<open>
  C8. Whenever the fetch raises, \<open>load_data_from_gsheet\<close> still returns: its result is
  the DataFrame with the columns \<open>HEADERS\<close> and no rows, and one message is shown that
  carries the exception.
\<close>

theorem load_failure_reported:
  assumes "get_all_records ws = Inl e"
  shows "load_data_from_gsheet ws =
           (\<lparr>columns = HEADERS, rows = []\<rparr>,
            [St_error ''Failed to load data from Google Sheet: '' e])"
  using assms by (simp add: load_data_from_gsheet_def)

theorem load_failure_reported_witness:
  "get_all_records ledger_offline = Inl APIError
   \<and> load_data_from_gsheet ledger_offline =
           (\<lparr>columns = HEADERS, rows = []\<rparr>,
            [St_error ''Failed to load data from Google Sheet: '' APIError])"
proof -
  have h: "get_all_records ledger_offline = Inl APIError"
    by (simp add: get_all_records_def ledger_offline_def)
  from load_failure_reported [OF h] h show ?thesis by simp
qed

text \<open>
  C9. Whenever the id computation returns an id, the entry that \<open>save_entry\<close> leaves to
  its caller is the caller's entry with the key \<open>ID\<close> set to that id and every other key
  as the caller had it, whether the worksheet is reachable or not and whatever happens
  after the append; the row that a reachable worksheet receives is built from the entry
  with the id already in it.
\<close>

theorem save_entry_sets_id:
  assumes "get_next_id df = Inr n"
  shows "fst (snd (snd (save_entry ws df entry))) = dict_set entry ''ID'' (PInt n)
       \<and> map_of (fst (snd (snd (save_entry ws df entry)))) ''ID'' = Some (PInt n)
       \<and> (\<forall>k. k \<noteq> ''ID'' \<longrightarrow>
            map_of (fst (snd (snd (save_entry ws df entry)))) k = map_of entry k)
       \<and> (online ws \<longrightarrow>
            grid (fst (snd (save_entry ws df entry))) =
              grid ws @ [map py_str
                (map (\<lambda>h. dict_get (dict_set entry ''ID'' (PInt n)) h (PStr [])) HEADERS)])"
proof -
  have e: "fst (snd (snd (save_entry ws df entry))) = dict_set entry ''ID'' (PInt n)"
    using assms by (auto simp: save_entry_def Let_def split: sum.splits)
  have g: "online ws \<longrightarrow>
            grid (fst (snd (save_entry ws df entry))) =
              grid ws @ [map py_str
                (map (\<lambda>h. dict_get (dict_set entry ''ID'' (PInt n)) h (PStr [])) HEADERS)]"
    using assms by (auto simp: save_entry_def Let_def append_row_def split: sum.splits)
  show ?thesis
    unfolding e using g by (simp add: map_of_dict_set map_of_dict_set_other)
qed

theorem save_entry_sets_id_witness:
  "get_next_id (fst (load_data_from_gsheet ledger)) = Inr 5
   \<and> \<not> fst (save_entry ledger_offline (fst (load_data_from_gsheet ledger)) tigist_entry)
   \<and> map_of (fst (snd (snd
        (save_entry ledger_offline (fst (load_data_from_gsheet ledger)) tigist_entry))))
        ''ID'' = Some (PInt 5)
   \<and> map_of (fst (snd (snd
        (save_entry ledger_offline (fst (load_data_from_gsheet ledger)) tigist_entry))))
        ''Bank'' = Some (PStr ''CBE'')"
proof -
  have h: "get_next_id (fst (load_data_from_gsheet ledger)) = Inr 5"
    unfolding ledger_def by code_simp
  have f: "\<not> fst (save_entry ledger_offline (fst (load_data_from_gsheet ledger)) tigist_entry)"
    by (simp add: save_entry_def h append_row_def Let_def ledger_offline_def)
  have b: "map_of tigist_entry ''Bank'' = Some (PStr ''CBE'')"
    by (simp add: tigist_entry_def)
  have k: "''Bank'' \<noteq> ''ID''" by simp
  from save_entry_sets_id [OF h, of ledger_offline tigist_entry] h f b k
  show ?thesis by metis
qed

text \<open>
  C7 (as amended). For every submitted entry (a bank is selected and an amount is
  entered), if the worksheet cannot be reached the failed save is reported to the user
  and the session keeps the selected cashier and bank; the amount typed into the form is
  not kept: the form is cleared on every submit.
\<close>

theorem submit_entry_failure:
  assumes "selected_bank ss = Some bank" and "bank \<noteq> []"
      and "credit_input ss = Some credit" and "\<not> online ws"
  shows "submit_entry now ss ws =
           (ss\<lparr>credit_input := None\<rparr>, ws,
            [St_error ''Failed to load data from Google Sheet: '' APIError,
             St_error ''Failed to save entry: '' APIError])"
proof -
  have l: "load_data_from_gsheet ws =
      (\<lparr>columns = HEADERS, rows = []\<rparr>,
       [St_error ''Failed to load data from Google Sheet: '' APIError])"
    using assms(4) by (simp add: load_data_from_gsheet_def get_all_records_def)
  have g: "get_next_id \<lparr>columns = HEADERS, rows = []\<rparr> = Inr 1"
    by (simp add: get_next_id_def df_empty_def)
  show ?thesis
    using assms by (simp add: submit_entry_def l save_entry_def g append_row_def Let_def)
qed

theorem submit_entry_failure_witness:
  "selected_bank tigist_session = Some ''CBE'' \<and> ''CBE'' \<noteq> []
   \<and> credit_input tigist_session = Some ''75.25'' \<and> \<not> online ledger_offline
   \<and> submit_entry ''2024-05-02 08:00:00'' tigist_session ledger_offline =
       (\<lparr>selected_cashier = ''Tigist'', selected_bank = Some ''CBE'', credit_input = None\<rparr>,
        ledger_offline,
        [St_error ''Failed to load data from Google Sheet: '' APIError,
         St_error ''Failed to save entry: '' APIError])"
proof -
  have b: "selected_bank tigist_session = Some ''CBE''" by (simp add: tigist_session_def)
  have n: "''CBE'' \<noteq> []" by simp
  have c: "credit_input tigist_session = Some ''75.25''" by (simp add: tigist_session_def)
  have o: "\<not> online ledger_offline" by (simp add: ledger_offline_def)
  from submit_entry_failure [OF b n c o, of "''2024-05-02 08:00:00''"] b c o
  show ?thesis by (simp add: tigist_session_def)
qed

text \<open>
  The save fails and is reported, and the amount 75.25 that was entered is gone from the
  form afterwards.
\<close>

theorem submit_entry_clears_credit_counterexample:
  "credit_input tigist_session = Some ''75.25''
   \<and> St_error ''Failed to save entry: '' APIError
       \<in> set (snd (snd (submit_entry ''2024-05-02 08:00:00'' tigist_session ledger_offline)))
   \<and> credit_input (fst (submit_entry ''2024-05-02 08:00:00'' tigist_session ledger_offline))
       \<noteq> Some ''75.25''"
proof -
  have "submit_entry ''2024-05-02 08:00:00'' tigist_session ledger_offline =
       (\<lparr>selected_cashier = ''Tigist'', selected_bank = Some ''CBE'', credit_input = None\<rparr>,
        ledger_offline,
        [St_error ''Failed to load data from Google Sheet: '' APIError,
         St_error ''Failed to save entry: '' APIError])"
    unfolding tigist_session_def ledger_offline_def ledger_def by code_simp
  then show ?thesis by (simp add: tigist_session_def)
qed

section \<open>Search and display\<close>

lemma starts_with_iff: "starts_with s q \<longleftrightarrow> (\<exists>t. s = q @ t)"
  by (induction s q rule: starts_with.induct) auto

lemma py_in_iff: "py_in q s \<longleftrightarrow> (\<exists>p t. s = p @ q @ t)"
proof (induction s)
  case Nil
  then show ?case by auto
next
  case (Cons c s)
  show ?case
  proof
    assume "py_in q (c # s)"
    then consider "starts_with (c # s) q" | "py_in q s" by auto
    then show "\<exists>p t. c # s = p @ q @ t"
    proof cases
      case 1
      then obtain t where "c # s = q @ t" using starts_with_iff by blast
      then have "c # s = [] @ q @ t" by simp
      then show ?thesis by blast
    next
      case 2
      then obtain p t where "s = p @ q @ t" using Cons.IH by blast
      then have "c # s = (c # p) @ q @ t" by simp
      then show ?thesis by blast
    qed
  next
    assume "\<exists>p t. c # s = p @ q @ t"
    then obtain p t where pt: "c # s = p @ q @ t" by blast
    show "py_in q (c # s)"
    proof (cases p)
      case Nil
      then have "starts_with (c # s) q" using pt starts_with_iff by auto
      then show ?thesis by simp
    next
      case (Cons a p')
      then have "s = p' @ q @ t" using pt by simp
      then have "py_in q s" using Cons.IH by blast
      then show ?thesis by simp
    qed
  qed
qed

lemma py_in_empty: "py_in [] s"
  by (induction s) auto

text \<open>
  C5. For every snapshot and every query: the search keeps, in their order, exactly the
  rows for which the lower-cased query occurs as a contiguous piece of the lower-cased
  text of the row, the text being \<open>str\<close> of each field joined by single blanks; the
  columns are untouched; and for the empty query the result is the snapshot itself.
\<close>

theorem search_entries_substring:
  "rows (search_entries search_query df) =
     filter (\<lambda>row. \<exists>p t. lower (join '' '' (map py_str row)) = p @ lower search_query @ t)
       (rows df)
   \<and> columns (search_entries search_query df) = columns df
   \<and> search_entries [] df = df"
  by (simp add: search_entries_def py_in_iff [symmetric] row_text_def lower_def py_in_empty)

theorem search_entries_substring_witness:
  "search_entries [] two_banks = two_banks
   \<and> columns (search_entries ''cbe'' two_banks) = HEADERS
   \<and> rows (search_entries ''cbe'' two_banks) =
       [[PStr ''2'', PStr ''2024-05-01 09:30:00'', PStr ''Emush'', PStr ''CBE'',
         PFloat ''50.0'']]"
proof -
  have r: "rows (search_entries ''cbe'' two_banks) =
       [[PStr ''2'', PStr ''2024-05-01 09:30:00'', PStr ''Emush'', PStr ''CBE'',
         PFloat ''50.0'']]"
    unfolding two_banks_def by code_simp
  have c: "columns two_banks = HEADERS" by (simp add: two_banks_def)
  from search_entries_substring [of "''cbe''" two_banks] r c show ?thesis by simp
qed

text \<open>
  C6. The table shows the snapshot sorted by the ID column, whose cells are strings
  after a load, so the order is that of the id texts: for a ledger with the ids 9 and 10
  and no query the row of id 9 is displayed before the row of id 10.
\<close>

theorem display_df_text_order:
  "display_df [] (fst (load_data_from_gsheet ledger_nine_ten)) =
     Inr \<lparr>columns = HEADERS,
          rows = [[PStr ''9'', PStr ''2024-05-01 09:00:00'', PStr ''Misrak'', PStr ''Abay'',
                   PFloat ''100.0''],
                  [PStr ''10'', PStr ''2024-05-01 09:30:00'', PStr ''Emush'', PStr ''Nib'',
                   PFloat ''50.0'']]\<rparr>
   \<and> to_numeric (PStr ''9'') = Some (Fin 9) \<and> to_numeric (PStr ''10'') = Some (Fin 10)"
  unfolding ledger_nine_ten_def by code_simp

end
